theory Spec2Isabelle
  imports Complex_Main "HOL-Library.Log_Nat" "HOL-Library.AList"
begin

section \<open>Python values used by Eagle Eye\<close>

text \<open>
  Strings are lists of code points below 256 (one \<^typ>\<open>char\<close> per code point).
  Exceptions are values: a function that can raise returns \<open>py_error + 'a\<close>, with
  \<open>Inl\<close> for the exception.
\<close>

datatype py_error = IndexError | ValueError | OverflowError | UnboundLocalError | ExternalError

definition try_bind :: "py_error + 'a \<Rightarrow> ('a \<Rightarrow> py_error + 'b) \<Rightarrow> py_error + 'b" where
  "try_bind m f = (case m of Inl e \<Rightarrow> Inl e | Inr x \<Rightarrow> f x)"

text \<open>\<open>xs[i]\<close> for a non-negative index: out of range raises \<open>IndexError\<close>.\<close>

definition py_index :: "'a list \<Rightarrow> nat \<Rightarrow> py_error + 'a" where
  "py_index xs i = (if i < length xs then Inr (xs ! i) else Inl IndexError)"

text \<open>\<open>xs[0::2]\<close> and \<open>xs[1::2]\<close>.\<close>

fun slice_even :: "'a list \<Rightarrow> 'a list" where
  "slice_even [] = []"
| "slice_even [x] = [x]"
| "slice_even (x # y # xs) = x # slice_even xs"

definition slice_odd :: "'a list \<Rightarrow> 'a list" where
  "slice_odd xs = slice_even (drop 1 xs)"

text \<open>\<open>s.split(c)\<close> for a one-character separator: never empty.\<close>

fun split_on :: "char \<Rightarrow> string \<Rightarrow> string list" where
  "split_on c [] = [[]]"
| "split_on c (x # xs) =
     (if x = c then [] # split_on c xs
      else (case split_on c xs of [] \<Rightarrow> [[x]] | y # ys \<Rightarrow> (x # y) # ys))"

text \<open>\<open>c.join(parts)\<close> for a one-character separator.\<close>

fun join_with :: "char \<Rightarrow> string list \<Rightarrow> string" where
  "join_with c [] = []"
| "join_with c [s] = s"
| "join_with c (s # t # ss) = s @ c # join_with c (t # ss)"

definition endswith :: "string \<Rightarrow> string \<Rightarrow> bool" where
  "endswith s suffix = (length suffix \<le> length s \<and> drop (length s - length suffix) s = suffix)"

text \<open>
  \<open>str.isspace\<close> on code points below 256, used by \<open>str.strip()\<close>; \<open>float\<close>
  skips the same characters except the separators 28 to 31.
\<close>

definition is_space :: "char \<Rightarrow> bool" where
  "is_space c = (let n = (of_char c :: int) in
     (9 \<le> n \<and> n \<le> 13) \<or> (28 \<le> n \<and> n \<le> 32) \<or> n = 133 \<or> n = 160)"

definition is_float_space :: "char \<Rightarrow> bool" where
  "is_float_space c = (let n = (of_char c :: int) in
     (9 \<le> n \<and> n \<le> 13) \<or> n = 32 \<or> n = 133 \<or> n = 160)"

definition strip_with :: "(char \<Rightarrow> bool) \<Rightarrow> string \<Rightarrow> string" where
  "strip_with p s = rev (dropWhile p (rev (dropWhile p s)))"

definition is_digit :: "char \<Rightarrow> bool" where
  "is_digit c = (let n = (of_char c :: int) in 48 \<le> n \<and> n \<le> 57)"

definition digit_val :: "char \<Rightarrow> int" where
  "digit_val c = of_char c - 48"

definition digits_val :: "string \<Rightarrow> int" where
  "digits_val ds = foldl (\<lambda>acc c. 10 * acc + digit_val c) 0 ds"

definition lower_ascii :: "char \<Rightarrow> char" where
  "lower_ascii c = (let n = (of_char c :: int) in if 65 \<le> n \<and> n \<le> 90 then char_of (n + 32) else c)"

subsection \<open>Floats\<close>

text \<open>
  A Python float is an IEEE 754 binary64 value: a finite one is the rational it denotes
  (the sign of zero is not kept: \<open>int\<close> maps both zeros to 0).
  \<open>round_double\<close> rounds a rational to the nearest binary64 value, ties to even,
  subnormals included; a rounded value of binary exponent above 1023 is infinity.
\<close>

datatype py_float = Finite rat | Infinity bool | NaN

definition pow2 :: "int \<Rightarrow> rat" where
  "pow2 e = (if 0 \<le> e then 2 ^ nat e else 1 / 2 ^ nat (- e))"

definition pow10 :: "int \<Rightarrow> rat" where
  "pow10 e = (if 0 \<le> e then 10 ^ nat e else 1 / 10 ^ nat (- e))"

definition floor_log2 :: "rat \<Rightarrow> int" where
  "floor_log2 x = (let (p, q) = quotient_of x; e0 = bitlen p - bitlen q
     in if pow2 e0 \<le> x then e0 else e0 - 1)"

definition round_half_even :: "rat \<Rightarrow> int" where
  "round_half_even x = (let f = \<lfloor>x\<rfloor>; d = x - of_int f
     in if d < 1 / 2 then f else if 1 / 2 < d then f + 1 else if even f then f else f + 1)"

definition round_double :: "rat \<Rightarrow> py_float" where
  "round_double x =
     (if x = 0 then Finite 0
      else let a = \<bar>x\<bar>;
               t = max (floor_log2 a) (- 1022) - 52;
               r = of_int (round_half_even (a / pow2 t)) * pow2 t
           in if 1024 \<le> floor_log2 r then Infinity (x < 0)
              else Finite (if x < 0 then - r else r))"

text \<open>\<open>x * k\<close> for a float \<open>x\<close> and one of the integer multipliers 1, 1000, 1000000.\<close>

definition float_mul_int :: "py_float \<Rightarrow> int \<Rightarrow> py_float" where
  "float_mul_int x k =
     (case x of
        Finite q \<Rightarrow> round_double (q * of_int k)
      | Infinity s \<Rightarrow> if k = 0 then NaN else Infinity (if k < 0 then \<not> s else s)
      | NaN \<Rightarrow> NaN)"

text \<open>\<open>int(x)\<close>: truncation towards zero; infinity and NaN raise.\<close>

definition int_of_float :: "py_float \<Rightarrow> py_error + int" where
  "int_of_float x =
     (case x of
        Finite q \<Rightarrow> Inr (if q < 0 then - \<lfloor>- q\<rfloor> else \<lfloor>q\<rfloor>)
      | Infinity s \<Rightarrow> Inl OverflowError
      | NaN \<Rightarrow> Inl ValueError)"

text \<open>
  \<open>float(s)\<close> for a string: surrounding white space is skipped; an underscore may stand
  between two digits only; then an optional sign and either \<open>inf\<close>, \<open>infinity\<close>,
  \<open>nan\<close> in any case, or digits with an optional point and an optional exponent, at
  least one digit in all. Anything else raises \<open>ValueError\<close>.
\<close>

fun underscores_ok :: "char \<Rightarrow> string \<Rightarrow> bool" where
  "underscores_ok prev [] = (prev \<noteq> CHR ''_'')"
| "underscores_ok prev (c # cs) =
     (if c = CHR ''_'' then is_digit prev \<and> underscores_ok c cs
      else (if prev = CHR ''_'' then is_digit c else True) \<and> underscores_ok c cs)"

definition parse_exponent :: "string \<Rightarrow> int option" where
  "parse_exponent r =
     (case r of
        [] \<Rightarrow> Some 0
      | c # r1 \<Rightarrow>
          if c = CHR ''e'' \<or> c = CHR ''E'' then
            (let neg = (case r1 of [] \<Rightarrow> False | d # _ \<Rightarrow> d = CHR ''-'');
                 ds = (case r1 of [] \<Rightarrow> []
                       | d # r2 \<Rightarrow> if d = CHR ''-'' \<or> d = CHR ''+'' then r2 else r1)
             in if ds \<noteq> [] \<and> list_all is_digit ds
                then Some (if neg then - digits_val ds else digits_val ds)
                else None)
          else None)"

definition parse_decimal :: "string \<Rightarrow> rat option" where
  "parse_decimal s =
     (let ip = takeWhile is_digit s;
          r1 = dropWhile is_digit s;
          pt = (case r1 of [] \<Rightarrow> False | c # _ \<Rightarrow> c = CHR ''.'');
          fp = (if pt then takeWhile is_digit (tl r1) else []);
          r2 = (if pt then dropWhile is_digit (tl r1) else r1)
      in if ip @ fp = [] then None
         else (case parse_exponent r2 of
                 None \<Rightarrow> None
               | Some e \<Rightarrow> Some (of_int (digits_val (ip @ fp)) * pow10 (e - int (length fp)))))"

definition float_of_string :: "string \<Rightarrow> py_error + py_float" where
  "float_of_string s0 =
     (let s1 = strip_with is_float_space s0 in
      if CHR ''_'' \<in> set s1 \<and> \<not> underscores_ok (CHR 0x00) s1 then Inl ValueError
      else
        let s = filter (\<lambda>c. c \<noteq> CHR ''_'') s1;
            neg = (case s of [] \<Rightarrow> False | c # _ \<Rightarrow> c = CHR ''-'');
            body = (case s of [] \<Rightarrow> []
                    | c # r \<Rightarrow> if c = CHR ''-'' \<or> c = CHR ''+'' then r else s);
            low = map lower_ascii body
        in if low = ''inf'' \<or> low = ''infinity'' then Inr (Infinity neg)
           else if low = ''nan'' then Inr NaN
           else (case parse_decimal body of
                   None \<Rightarrow> Inl ValueError
                 | Some q \<Rightarrow> Inr (round_double (if neg then - q else q))))"

text \<open>\<open>f"{n:,}"\<close> for an integer: decimal digits in groups of three.\<close>

function digits_of_int :: "int \<Rightarrow> string" where
  "digits_of_int n =
     (if n < 10 then [char_of (48 + n)]
      else digits_of_int (n div 10) @ [char_of (48 + n mod 10)])"
  by pat_completeness auto
termination
  by (relation "measure nat") auto

fun group3 :: "string \<Rightarrow> string" where
  "group3 (a # b # c # d # r) = a # b # c # CHR '','' # group3 (d # r)"
| "group3 r = r"

definition format_commas :: "int \<Rightarrow> string" where
  "format_commas n =
     (let body = rev (group3 (rev (digits_of_int \<bar>n\<bar>)))
      in if n < 0 then CHR ''-'' # body else body)"

section \<open>eagle\_eye\_utils.format\_number\<close>

text \<open>
  The body runs inside \<open>try ... except ValueError: return number\<close>: a \<open>ValueError\<close>
  gives the input back, any other exception leaves the function.
\<close>

definition suffix_multiplier :: "char \<Rightarrow> int option" where
  "suffix_multiplier c =
     (if c = CHR ''K'' then Some 1000
      else if c = CHR ''M'' then Some 1000000
      else if c = CHR ''k'' then Some 1000
      else if c = CHR ''m'' then Some 1000000
      else None)"

definition format_number_body :: "string \<Rightarrow> py_error + string" where
  "format_number_body number =
     (if number = [] then Inl IndexError
      else
        let suffix = last number;
            multiplier = (case suffix_multiplier suffix of None \<Rightarrow> 1 | Some m \<Rightarrow> m)
        in try_bind
             (case suffix_multiplier suffix of
                Some _ \<Rightarrow> float_of_string (butlast number)
              | None \<Rightarrow> float_of_string number)
             (\<lambda>num. try_bind (int_of_float (float_mul_int num multiplier))
                (\<lambda>n. Inr (format_commas n))))"

definition format_number :: "string \<Rightarrow> py_error + string" where
  "format_number number =
     (case format_number_body number of
        Inl e \<Rightarrow> if e = ValueError then Inr number else Inl e
      | Inr s \<Rightarrow> Inr s)"

section \<open>The scraped page\<close>

text \<open>
  What the browser and the BeautifulSoup queries hand to the loop of \<open>scrape_channel\<close>:
  the text of every element found for \<open>titles\<close>, \<open>uploads\<close>, \<open>counts\<close> and
  \<open>terms\<close>, the \<open>href\<close> of every anchor found for \<open>video_ids\<close> and
  \<open>video_links\<close>, and the channel attributes. The source binds \<open>uploads\<close> and
  \<open>counts\<close> to the same query, and \<open>video_ids\<close> and \<open>video_links\<close> also; the
  model keeps one list per variable, as the loop reads them.
\<close>

record page =
  cname :: string
  channel_ids :: string
  num_subscribers :: string
  description :: string
  keyword_tags :: "string list"
  joined :: string
  location :: string
  global_views :: string
  titles :: "string list"
  uploads :: "string list"
  counts :: "string list"
  video_ids :: "string list"
  video_links :: "string list"
  terms :: "string list"

text \<open>
  The statements before the loop: \<open>DriverFailed\<close> when \<open>setup_webdriver\<close> raises
  (\<open>driver\<close> is then unbound), \<open>ExtractFailed\<close> when a later statement raises,
  \<open>Extracted\<close> otherwise.
\<close>

datatype fetched = DriverFailed | ExtractFailed py_error | Extracted page

definition TAB :: char where
  "TAB = CHR 0x09"

definition NL :: char where
  "NL = CHR 0x0A"

section \<open>The loop of scrape\_channel\<close>

text \<open>One iteration of the loop of \<open>eagle_eye_videos\<close> and \<open>eagle_eye_streams\<close>.\<close>

definition video_info :: "page \<Rightarrow> nat \<Rightarrow> py_error + string list" where
  "video_info p i =
     try_bind (py_index (titles p) i) (\<lambda>title.
     try_bind (py_index (slice_odd (uploads p)) i) (\<lambda>published.
     try_bind (py_index (slice_even (counts p)) i) (\<lambda>counter.
     try_bind (format_number (hd (split_on (CHR '' '') counter))) (\<lambda>view.
     try_bind (py_index (video_ids p) i) (\<lambda>id_href.
     try_bind (py_index (video_links p) i) (\<lambda>link_href.
     try_bind (py_index (slice_even (terms p)) i) (\<lambda>term.
       Inr (split_on TAB
         (cname p @ [TAB] @ channel_ids p @ [TAB] @ title @ [TAB] @ published @ [TAB]
          @ view @ [TAB] @ last (split_on (CHR ''='') id_href) @ [TAB]
          @ ''https://www.youtube.com'' @ link_href @ [TAB]
          @ strip_with is_space term)))))))))"

text \<open>One iteration of the loop of \<open>eagle_eye_shorts\<close>.\<close>

definition short_info :: "page \<Rightarrow> nat \<Rightarrow> py_error + string list" where
  "short_info p i =
     try_bind (py_index (titles p) i) (\<lambda>title.
     try_bind (py_index (counts p) i) (\<lambda>counter.
     try_bind (format_number (hd (split_on (CHR '' '') counter))) (\<lambda>view.
     try_bind (py_index (video_ids p) i) (\<lambda>id_href.
     try_bind (py_index (video_links p) i) (\<lambda>link_href.
       Inr (split_on TAB
         (cname p @ [TAB] @ channel_ids p @ [TAB] @ title @ [TAB] @ view @ [TAB]
          @ last (split_on (CHR ''/'') id_href) @ [TAB]
          @ ''https://www.youtube.com'' @ link_href)))))))"

text \<open>
  \<open>for i in range(total)\<close>: leave at \<open>max_videos is not None and i >= max_videos\<close>,
  append the row otherwise. An exception leaves the loop with \<open>video_data\<close> as it is.
\<close>

fun scrape_loop ::
  "(nat \<Rightarrow> py_error + string list) \<Rightarrow> int option \<Rightarrow> nat list \<Rightarrow> string list list
   \<Rightarrow> string list list \<times> py_error option" where
  "scrape_loop body max_videos [] video_data = (video_data, None)"
| "scrape_loop body max_videos (i # r) video_data =
     (if (case max_videos of None \<Rightarrow> False | Some m \<Rightarrow> m \<le> int i) then (video_data, None)
      else (case body i of
              Inl e \<Rightarrow> (video_data, Some e)
            | Inr row \<Rightarrow> scrape_loop body max_videos r (video_data @ [row])))"

text \<open>The number of iterations the loop starts when nothing raises.\<close>

definition loop_limit :: "nat \<Rightarrow> int option \<Rightarrow> nat" where
  "loop_limit n max_videos =
     (case max_videos of None \<Rightarrow> n | Some m \<Rightarrow> if m \<le> 0 then 0 else min n (nat m))"

section \<open>Paths and time stamps\<close>

text \<open>\<open>os.path.join(a, b)\<close> on POSIX.\<close>

definition os_path_join :: "string \<Rightarrow> string \<Rightarrow> string" where
  "os_path_join a b =
     (if b \<noteq> [] \<and> hd b = CHR ''/'' then b
      else if a = [] \<or> last a = CHR ''/'' then a @ b
      else a @ ''/'' @ b)"

text \<open>
  \<open>datetime.datetime.now().strftime("%Y%m%d_%H%M%S")\<close>: the year in decimal, the
  other fields on two digits.
\<close>

record datetime =
  year :: int
  month :: int
  day :: int
  hour :: int
  minute :: int
  second :: int

definition pad2 :: "int \<Rightarrow> string" where
  "pad2 n = (if n < 10 then CHR ''0'' # digits_of_int n else digits_of_int n)"

definition strftime :: "datetime \<Rightarrow> string" where
  "strftime d = digits_of_int (year d) @ pad2 (month d) @ pad2 (day d) @ ''_''
                @ pad2 (hour d) @ pad2 (minute d) @ pad2 (second d)"

section \<open>Tables and files\<close>

text \<open>
  A pandas DataFrame is its column names and its rows of cells; \<open>None\<close> is a missing
  cell. A file is what was written to it: text written by the program itself, or a table
  handed to one of the pandas writers (\<open>to_csv\<close>, \<open>to_csv(sep='\t')\<close>,
  \<open>to_excel\<close>, \<open>to_json(orient="records")\<close>). File-system calls are taken to
  succeed. A directory is the list of its entries in the order \<open>os.listdir\<close> gives
  them; writing replaces an entry or adds one.
\<close>

type_synonym dataframe = "string list \<times> string option list list"

datatype file_content = Text string | Csv dataframe | Tsv dataframe | Xlsx dataframe | Json dataframe

type_synonym folder = "(string \<times> file_content) list"

text \<open>
  \<open>pd.DataFrame(data, columns=cols)\<close> for a list of rows of strings: short rows are
  padded to the longest, whose length must be the number of columns.
\<close>

definition DataFrame :: "string list list \<Rightarrow> string list \<Rightarrow> py_error + dataframe" where
  "DataFrame data cols =
     (if data = [] then Inr (cols, [])
      else let w = foldr max (map length data) 0
           in if w = length cols
              then Inr (cols, map (\<lambda>r. map Some r @ replicate (w - length r) None) data)
              else Inl ValueError)"

text \<open>
  \<open>pd.concat(frames, ignore_index=True)\<close>: the columns in order of first appearance,
  the rows of every frame in order, a cell missing where a frame lacks the column.
\<close>

definition realign :: "string list \<Rightarrow> string list \<Rightarrow> string option list \<Rightarrow> string option list" where
  "realign cols cs r = map (\<lambda>c. case map_of (zip cs r) c of None \<Rightarrow> None | Some v \<Rightarrow> v) cols"

definition concat_df :: "dataframe list \<Rightarrow> dataframe" where
  "concat_df dfs =
     (let cols = rev (remdups (rev (concat (map fst dfs))))
      in (cols, concat (map (\<lambda>df. map (realign cols (fst df)) (snd df)) dfs)))"

section \<open>eagle\_eye\_utils.merge\_summary\_files\<close>

text \<open>
  \<open>read_csv\<close> stands for \<open>pandas.read_csv\<close> with the given separator, applied to
  the content of a file. The function returns the directory after its writes and the
  lines it printed; an exception of \<open>read_csv\<close> leaves the function before any write.
\<close>

fun read_all ::
  "(char \<Rightarrow> file_content \<Rightarrow> py_error + dataframe) \<Rightarrow> folder \<Rightarrow> string list
   \<Rightarrow> py_error + dataframe list" where
  "read_all read_csv dir [] = Inr []"
| "read_all read_csv dir (file # files) =
     (case map_of dir file of
        None \<Rightarrow> Inl ExternalError
      | Some content \<Rightarrow>
          try_bind (read_csv (CHR '','') content) (\<lambda>df.
          try_bind (read_all read_csv dir files) (\<lambda>dfs. Inr (df # dfs))))"

definition merge_summary_files ::
  "(char \<Rightarrow> file_content \<Rightarrow> py_error + dataframe) \<Rightarrow> folder
   \<Rightarrow> py_error + folder \<times> string list" where
  "merge_summary_files read_csv dir =
     (let summary_files = filter (\<lambda>file. endswith file ''_summary.csv'') (map fst dir)
      in if summary_files = [] then Inr (dir, [''No summary files found for merging.''])
         else try_bind (read_all read_csv dir summary_files) (\<lambda>dfs.
           let merged_df = concat_df dfs
           in Inr (AList.update ''summary_all_channels.json'' (Json merged_df)
                     (AList.update ''summary_all_channels.xlsx'' (Xlsx merged_df)
                       (AList.update ''summary_all_channels.txt'' (Tsv merged_df)
                         (AList.update ''summary_all_channels.csv'' (Csv merged_df) dir))),
                   [[CHR 0x1B] @ ''[92mSummary files merged successfully.'' @ [CHR 0x1B] @ ''[0m''])))"

section \<open>Writing the files of a channel\<close>

text \<open>\<open>'\t'.join(row) + "\n"\<close> for every row, after the header line.\<close>

definition txt_lines :: "string list list \<Rightarrow> string" where
  "txt_lines data = concat (map (\<lambda>row. join_with TAB row @ [NL]) data)"

definition video_columns :: "string list" where
  "video_columns = [''Channel'', ''Identifier'', ''Title'', ''Published'', ''Video_views'',
                    ''Video_id'', ''Link'', ''Duration'']"

definition short_columns :: "string list" where
  "short_columns = [''Channel'', ''Identifier'', ''Title'', ''Video_views'', ''Video_id'', ''Link'']"

definition summary_columns :: "string list" where
  "summary_columns = [''Channel'', ''Identifier'', ''Description'', ''Keywords'', ''Subscribers'',
                      ''Joined'', ''Location'', ''Global_views'']"

definition summary_txt_header :: "string list" where
  "summary_txt_header = [''Channel'', ''Identifier'', ''Description'', ''Keywords'', ''Subscribers'',
                         ''Joined'', ''location'', ''global_views'']"

text \<open>
  The four writes of \<open>eagle_eye_videos\<close> (\<open>kind\<close> is \<open>videos\<close>) and
  \<open>eagle_eye_streams\<close> (\<open>streams\<close>), and of the channel summary (\<open>summary\<close>):
  the TXT file first, then the DataFrame, whose constructor may raise, then CSV, XLSX
  and JSON.
\<close>

definition write_files ::
  "string \<Rightarrow> string \<Rightarrow> string \<Rightarrow> string list \<Rightarrow> string list \<Rightarrow> string list list
   \<Rightarrow> (string \<times> file_content) list \<times> py_error option" where
  "write_files kind name current_datetime header cols data =
     (let channel_folder = os_path_join ''downloads'' name;
          stem = name @ ''_'' @ kind @ ''_'' @ current_datetime;
          txt = (os_path_join channel_folder (stem @ ''.txt''),
                 Text (join_with TAB header @ [NL] @ txt_lines data))
      in case DataFrame data cols of
           Inl e \<Rightarrow> ([txt], Some e)
         | Inr df \<Rightarrow>
             ([txt,
               (os_path_join channel_folder (stem @ ''.csv''), Csv df),
               (os_path_join channel_folder (stem @ ''.xlsx''), Xlsx df),
               (os_path_join channel_folder (stem @ ''.json''), Json df)], None))"

text \<open>
  The writes of \<open>eagle_eye_shorts\<close>: the TXT file in the working directory, then the
  table that \<open>pd.read_csv(..., sep='\t')\<close> reads back from it.
\<close>

definition write_shorts ::
  "(char \<Rightarrow> file_content \<Rightarrow> py_error + dataframe) \<Rightarrow> string \<Rightarrow> string list list
   \<Rightarrow> (string \<times> file_content) list \<times> py_error option" where
  "write_shorts read_csv name data =
     (let txt = (name @ ''_shorts.txt'',
                 Text (join_with TAB short_columns @ [NL] @ txt_lines data))
      in case read_csv TAB (snd txt) of
           Inl e \<Rightarrow> ([txt], Some e)
         | Inr df \<Rightarrow>
             ([txt,
               (name @ ''_shorts.csv'', Csv df),
               (name @ ''_shorts.xlsx'', Xlsx df),
               (name @ ''_shorts.json'', Json df)], None))"

section \<open>str of a list of strings\<close>

text \<open>\<open>f"{keyword}"\<close> for the list of keywords: the \<open>repr\<close> of every string.\<close>

definition hex_digit :: "int \<Rightarrow> char" where
  "hex_digit n = (if n < 10 then char_of (48 + n) else char_of (87 + n))"

definition repr_char :: "char \<Rightarrow> char \<Rightarrow> string" where
  "repr_char q c =
     (let n = (of_char c :: int) in
      if c = q \<or> c = CHR 0x5C then [CHR 0x5C, c]
      else if c = TAB then [CHR 0x5C, CHR ''t'']
      else if c = NL then [CHR 0x5C, CHR ''n'']
      else if c = CHR 0x0D then [CHR 0x5C, CHR ''r'']
      else if n < 32 \<or> (127 \<le> n \<and> n \<le> 160) \<or> n = 173
           then [CHR 0x5C, CHR ''x'', hex_digit (n div 16), hex_digit (n mod 16)]
      else [c])"

definition py_repr :: "string \<Rightarrow> string" where
  "py_repr s =
     (let q = (if CHR 0x27 \<in> set s \<and> CHR 0x22 \<notin> set s then CHR 0x22 else CHR 0x27)
      in q # concat (map (repr_char q) s) @ [q])"

fun join_comma :: "string list \<Rightarrow> string" where
  "join_comma [] = []"
| "join_comma [s] = s"
| "join_comma (s # t # ss) = s @ '', '' @ join_comma (t # ss)"

definition str_of_list :: "string list \<Rightarrow> string" where
  "str_of_list xs = ''['' @ join_comma (map py_repr xs) @ '']''"

section \<open>scrape\_channel\<close>

text \<open>
  What a call leaves behind: the list it returns, the files it wrote in order, and the
  exception its \<open>except Exception\<close> caught, if any.
\<close>

record scraped =
  returned :: "string list list"
  written :: "(string \<times> file_content) list"
  caught :: "py_error option"

text \<open>The row of the channel summary (\<open>choice_info == "2"\<close>).\<close>

definition channel_info :: "page \<Rightarrow> string \<Rightarrow> string list" where
  "channel_info p subscriber =
     split_on TAB
       (cname p @ [TAB] @ channel_ids p @ [TAB] @ description p @ [TAB]
        @ str_of_list (keyword_tags p) @ [TAB] @ subscriber @ [TAB] @ joined p @ [TAB]
        @ location p @ [TAB] @ global_views p)"

text \<open>
  \<open>eagle_eye_videos.scrape_channel\<close>. \<open>choice_info\<close> is what
  \<open>get_user_choice_info()\<close> returns, \<open>current_datetime\<close> the time stamp of the call,
  \<open>dir\<close> the directory \<open>./downloads/summary_channels\<close>, returned as the call leaves
  it. The summary row reads \<open>channel_id\<close>, \<open>keyword\<close> and \<open>subscriber\<close>,
  which only an iteration of the loop binds. With \<open>driver\<close> unbound, the
  \<open>finally\<close> clause raises and the exception leaves the function.
\<close>

definition videos_scrape_channel ::
  "(char \<Rightarrow> file_content \<Rightarrow> py_error + dataframe) \<Rightarrow> folder \<Rightarrow> fetched \<Rightarrow> int option
   \<Rightarrow> string \<Rightarrow> string \<Rightarrow> py_error + scraped \<times> folder" where
  "videos_scrape_channel read_csv dir f max_videos choice_info current_datetime =
     (case f of
        DriverFailed \<Rightarrow> Inl UnboundLocalError
      | ExtractFailed e \<Rightarrow> Inr (\<lparr>returned = [], written = [], caught = Some e\<rparr>, dir)
      | Extracted p \<Rightarrow>
          (case format_number (num_subscribers p) of
             Inl e \<Rightarrow> Inr (\<lparr>returned = [], written = [], caught = Some e\<rparr>, dir)
           | Inr subscribers \<Rightarrow>
               (case scrape_loop (video_info p) max_videos [0..<length (titles p)] [] of
                  (video_data, Some e) \<Rightarrow>
                    Inr (\<lparr>returned = video_data, written = [], caught = Some e\<rparr>, dir)
                | (video_data, None) \<Rightarrow>
                    if choice_info = ''1'' then
                      (case write_files ''videos'' (cname p) current_datetime
                              video_columns video_columns video_data of
                         (w, e) \<Rightarrow> Inr (\<lparr>returned = video_data, written = w, caught = e\<rparr>, dir))
                    else if choice_info = ''2'' then
                      (if loop_limit (length (titles p)) max_videos = 0
                       then Inr (\<lparr>returned = video_data, written = [],
                                  caught = Some UnboundLocalError\<rparr>, dir)
                       else
                         (case write_files ''summary'' (cname p) current_datetime
                                 summary_txt_header summary_columns [channel_info p subscribers] of
                            (w, Some e) \<Rightarrow>
                              Inr (\<lparr>returned = video_data, written = w, caught = Some e\<rparr>, dir)
                          | (w, None) \<Rightarrow>
                              (case merge_summary_files read_csv dir of
                                 Inl e \<Rightarrow>
                                   Inr (\<lparr>returned = video_data, written = w, caught = Some e\<rparr>, dir)
                               | Inr (dir', printed) \<Rightarrow>
                                   Inr (\<lparr>returned = video_data, written = w, caught = None\<rparr>, dir'))))
                    else Inr (\<lparr>returned = video_data, written = [], caught = None\<rparr>, dir))))"

text \<open>\<open>eagle_eye_streams.scrape_channel\<close>.\<close>

definition streams_scrape_channel :: "fetched \<Rightarrow> int option \<Rightarrow> string \<Rightarrow> py_error + scraped" where
  "streams_scrape_channel f max_videos current_datetime =
     (case f of
        DriverFailed \<Rightarrow> Inl UnboundLocalError
      | ExtractFailed e \<Rightarrow> Inr \<lparr>returned = [], written = [], caught = Some e\<rparr>
      | Extracted p \<Rightarrow>
          (case scrape_loop (video_info p) max_videos [0..<length (titles p)] [] of
             (video_data, Some e) \<Rightarrow>
               Inr \<lparr>returned = video_data, written = [], caught = Some e\<rparr>
           | (video_data, None) \<Rightarrow>
               (case write_files ''streams'' (cname p) current_datetime
                       video_columns video_columns video_data of
                  (w, e) \<Rightarrow> Inr \<lparr>returned = video_data, written = w, caught = e\<rparr>)))"

text \<open>\<open>eagle_eye_shorts.scrape_channel\<close>.\<close>

definition shorts_scrape_channel ::
  "(char \<Rightarrow> file_content \<Rightarrow> py_error + dataframe) \<Rightarrow> fetched \<Rightarrow> int option
   \<Rightarrow> py_error + scraped" where
  "shorts_scrape_channel read_csv f max_videos =
     (case f of
        DriverFailed \<Rightarrow> Inl UnboundLocalError
      | ExtractFailed e \<Rightarrow> Inr \<lparr>returned = [], written = [], caught = Some e\<rparr>
      | Extracted p \<Rightarrow>
          (case scrape_loop (short_info p) max_videos [0..<length (titles p)] [] of
             (video_data, Some e) \<Rightarrow>
               Inr \<lparr>returned = video_data, written = [], caught = Some e\<rparr>
           | (video_data, None) \<Rightarrow>
               (case write_shorts read_csv (cname p) video_data of
                  (w, e) \<Rightarrow> Inr \<lparr>returned = video_data, written = w, caught = e\<rparr>)))"

section \<open>eagle\_eye\_main.main: the loop over the channels\<close>

datatype selection = Videos | Streams | Shorts

text \<open>
  \<open>data\<close> after \<open>for channel in channels_to_scrape\<close>: every call's list is
  appended (\<open>scrape_channel\<close> never returns \<open>None\<close>). A channel is given by what its
  page load produced and the time stamp of its call. An exception that leaves
  \<open>scrape_channel\<close> leaves \<open>main\<close>.
\<close>

fun main_data ::
  "(char \<Rightarrow> file_content \<Rightarrow> py_error + dataframe) \<Rightarrow> selection \<Rightarrow> int option \<Rightarrow> string
   \<Rightarrow> folder \<Rightarrow> (fetched \<times> string) list \<Rightarrow> string list list \<Rightarrow> py_error + string list list" where
  "main_data read_csv sel max_videos choice_info dir [] data = Inr data"
| "main_data read_csv sel max_videos choice_info dir ((f, stamp) # channels) data =
     (case sel of
        Videos \<Rightarrow>
          (case videos_scrape_channel read_csv dir f max_videos choice_info stamp of
             Inl e \<Rightarrow> Inl e
           | Inr (r, dir') \<Rightarrow>
               main_data read_csv sel max_videos choice_info dir' channels (data @ returned r))
      | Streams \<Rightarrow>
          (case streams_scrape_channel f max_videos stamp of
             Inl e \<Rightarrow> Inl e
           | Inr r \<Rightarrow> main_data read_csv sel max_videos choice_info dir channels (data @ returned r))
      | Shorts \<Rightarrow>
          (case shorts_scrape_channel read_csv f max_videos of
             Inl e \<Rightarrow> Inl e
           | Inr r \<Rightarrow> main_data read_csv sel max_videos choice_info dir channels (data @ returned r)))"

text \<open>The loop body of the module that \<open>main\<close> calls for a selection.\<close>

definition item_info :: "selection \<Rightarrow> page \<Rightarrow> nat \<Rightarrow> py_error + string list" where
  "item_info sel p = (case sel of Shorts \<Rightarrow> short_info p | _ \<Rightarrow> video_info p)"

section \<open>Example pages\<close>

text \<open>
  A channel page with two videos: the metadata spans alternate view count and age, the
  duration spans come in pairs.
\<close>

definition two_videos :: page where
  "two_videos =
     \<lparr>cname = ''@eagle'', channel_ids = ''UC0123456789abcdefghijkl'',
      num_subscribers = ''15K'', description = ''Birds of prey'',
      keyword_tags = [''eagle'', ''bird''], joined = ''Dec 6 2023'', location = ''Colombia'',
      global_views = ''1,234'',
      titles = [''First flight'', ''Second flight''],
      uploads = [''15K views'', ''2 days ago'', ''900 views'', ''1 month ago''],
      counts = [''15K views'', ''2 days ago'', ''900 views'', ''1 month ago''],
      video_ids = [''/watch?v=abc'', ''/watch?v=def''],
      video_links = [''/watch?v=abc'', ''/watch?v=def''],
      terms = [''3:45'', ''3:45'', ''10:01'', ''10:01'']\<rparr>"

text \<open>The same page with the metadata spans of the second video missing.\<close>

definition spans_missing :: page where
  "spans_missing =
     two_videos\<lparr>uploads := [''15K views'', ''2 days ago''],
                 counts := [''15K views'', ''2 days ago'']\<rparr>"

text \<open>One video whose view-count span has no text.\<close>

definition blank_count :: page where
  "blank_count =
     two_videos\<lparr>titles := [''First flight''],
                 uploads := ['''', ''2 days ago''], counts := ['''', ''2 days ago''],
                 video_ids := [''/watch?v=abc''], video_links := [''/watch?v=abc''],
                 terms := [''3:45'', ''3:45'']\<rparr>"

text \<open>One video whose title holds a tab character.\<close>

definition tab_title :: page where
  "tab_title =
     two_videos\<lparr>titles := [''First'' @ [TAB] @ ''flight''],
                 uploads := [''15K views'', ''2 days ago''],
                 counts := [''15K views'', ''2 days ago''],
                 video_ids := [''/watch?v=abc''], video_links := [''/watch?v=abc''],
                 terms := [''3:45'', ''3:45'']\<rparr>"

text \<open>A shorts page with one item.\<close>

definition one_short :: page where
  "one_short =
     two_videos\<lparr>titles := [''Dive''], uploads := [], counts := [''2M views''],
                 video_ids := [''/shorts/xyz''], video_links := [''/shorts/xyz''],
                 terms := []\<rparr>"

text \<open>
  A reader for the examples: it gives back the table that was handed to \<open>to_csv\<close>,
  and fails on any other file.
\<close>

definition read_back :: "char \<Rightarrow> file_content \<Rightarrow> py_error + dataframe" where
  "read_back sep content =
     (case content of Csv df \<Rightarrow> Inr df | Tsv df \<Rightarrow> Inr df | _ \<Rightarrow> Inl ExternalError)"

text \<open>
  The base name of a file of the channel summary, as \<open>scrape_channel\<close> builds it:
  \<open>f"{cname}_summary_{current_datetime}.csv"\<close> and the same for the other extensions.
\<close>

datatype export_ext = Ext_txt | Ext_csv | Ext_xlsx | Ext_json

definition dot_ext :: "export_ext \<Rightarrow> string" where
  "dot_ext x = (case x of Ext_txt \<Rightarrow> ''.txt'' | Ext_csv \<Rightarrow> ''.csv''
                | Ext_xlsx \<Rightarrow> ''.xlsx'' | Ext_json \<Rightarrow> ''.json'')"

definition summary_file_name :: "string \<Rightarrow> datetime \<Rightarrow> export_ext \<Rightarrow> string" where
  "summary_file_name name d x = name @ ''_summary_'' @ strftime d @ dot_ext x"

text \<open>
  A directory with three summary files of one row each, in the summary schema, and a
  file that is not a summary.
\<close>

definition summary_row :: "string \<Rightarrow> string option list" where
  "summary_row name =
     [Some name, Some ''UC0123456789abcdefghijkl'', Some ''Birds of prey'', Some ''[]'',
      Some ''15,000'', Some ''Dec 6 2023'', Some ''Colombia'', Some ''1,234'']"

definition three_summaries :: folder where
  "three_summaries =
     [(''@a_summary.csv'', Csv (summary_columns, [summary_row ''@a''])),
      (''notes.txt'', Text ''not a summary''),
      (''@b_summary.csv'', Csv (summary_columns, [summary_row ''@b''])),
      (''@c_summary.csv'', Csv (summary_columns, [summary_row ''@c'']))]"

text \<open>A shorts page with one item whose title holds a line break.\<close>

definition newline_short :: page where
  "newline_short = one_short\<lparr>titles := [''Dive'' @ [NL] @ ''again'']\<rparr>"

section \<open>Properties of format\_number\<close>

lemma format_number_raises:
  "format_number number = Inl e \<Longrightarrow> (number = [] \<and> e = IndexError) \<or> e = OverflowError"
  by (auto simp: format_number_def format_number_body_def try_bind_def Let_def
        float_of_string_def int_of_float_def
      split: sum.splits if_splits option.splits py_float.splits)

lemma format_number_pass_through:
  "format_number_body number = Inl ValueError \<Longrightarrow> format_number number = Inr number"
  by (simp add: format_number_def)

text \<open>
  C2. \<open>format_number\<close> is claimed never to raise. On the empty string
  \<open>number[-1]\<close> raises \<open>IndexError\<close>, and on a string that \<open>float\<close> reads as
  infinity \<open>int(num)\<close> raises \<open>OverflowError\<close>; the handler catches
  \<open>ValueError\<close> only, so both leave the function.
\<close>

theorem format_number_empty_raises:
  "format_number '''' = Inl IndexError \<and> format_number ''inf'' = Inl OverflowError"
  by code_simp

text \<open>
  C4. \<open>format_number\<close> returns \<open>1,200\<close> on \<open>1.2K\<close>, \<open>2,000,000\<close> on \<open>2M\<close>,
  \<open>350\<close> on \<open>350\<close>, and gives \<open>N/A\<close> back unchanged.
\<close>

theorem format_number_examples:
  "format_number ''1.2K'' = Inr ''1,200'' \<and> format_number ''2M'' = Inr ''2,000,000''
   \<and> format_number ''350'' = Inr ''350'' \<and> format_number ''N/A'' = Inr ''N/A''"
  by code_simp

section \<open>Properties of the loop\<close>

lemma split_on_not_Nil: "split_on c s \<noteq> []"
  by (induction s) (auto split: list.splits)

lemma length_split_on: "length (split_on c s) = Suc (length (filter (\<lambda>x. x = c) s))"
  by (induction s) (auto split: list.splits simp: split_on_not_Nil)

lemma scrape_loop_upt:
  "scrape_loop body mx [k..<n] acc =
     (if k < n \<and> \<not> (case mx of None \<Rightarrow> False | Some m \<Rightarrow> m \<le> int k)
      then (case body k of Inl e \<Rightarrow> (acc, Some e)
            | Inr row \<Rightarrow> scrape_loop body mx [Suc k..<n] (acc @ [row]))
      else (acc, None))"
  by (cases "k < n") (simp_all add: upt_conv_Cons)

lemma loop_limit_stop:
  "(k < n \<and> \<not> (case mx of None \<Rightarrow> False | Some m \<Rightarrow> m \<le> int k)) = (k < loop_limit n mx)"
  by (auto simp: loop_limit_def split: option.splits)

lemma scrape_loop_ok:
  "k \<le> j \<Longrightarrow> j \<le> loop_limit n mx \<Longrightarrow> \<forall>i. k \<le> i \<and> i < j \<longrightarrow> body i = Inr (row i) \<Longrightarrow>
   scrape_loop body mx [k..<n] acc = scrape_loop body mx [j..<n] (acc @ map row [k..<j])"
proof (induction "j - k" arbitrary: k acc)
  case 0
  then show ?case by simp
next
  case (Suc d)
  then have kj: "k < j" by simp
  with Suc.prems have "k < loop_limit n mx" by simp
  then have c: "k < n \<and> \<not> (case mx of None \<Rightarrow> False | Some m \<Rightarrow> m \<le> int k)"
    by (simp add: loop_limit_stop)
  have b: "body k = Inr (row k)" using Suc.prems kj by simp
  have "scrape_loop body mx [k..<n] acc = scrape_loop body mx [Suc k..<n] (acc @ [row k])"
    by (subst scrape_loop_upt) (simp add: c b)
  also have "\<dots> = scrape_loop body mx [j..<n] ((acc @ [row k]) @ map row [Suc k..<j])"
    using Suc.hyps Suc.prems kj by (intro Suc.hyps(1)) auto
  also have "(acc @ [row k]) @ map row [Suc k..<j] = acc @ map row [k..<j]"
    using kj by (simp add: upt_conv_Cons)
  finally show ?case .
qed

lemma scrape_loop_complete:
  assumes "\<forall>i<loop_limit n mx. body i = Inr (row i)"
  shows "scrape_loop body mx [0..<n] [] = (map row [0..<loop_limit n mx], None)"
proof -
  have "scrape_loop body mx [0..<n] []
        = scrape_loop body mx [loop_limit n mx..<n] ([] @ map row [0..<loop_limit n mx])"
    using assms by (intro scrape_loop_ok) auto
  also have "\<dots> = (map row [0..<loop_limit n mx], None)"
    by (subst scrape_loop_upt) (simp add: loop_limit_stop)
  finally show ?thesis .
qed

lemma scrape_loop_raise:
  assumes "j < loop_limit n mx" and "\<forall>i<j. body i = Inr (row i)" and "body j = Inl e"
  shows "scrape_loop body mx [0..<n] [] = (map row [0..<j], Some e)"
proof -
  have "scrape_loop body mx [0..<n] [] = scrape_loop body mx [j..<n] ([] @ map row [0..<j])"
    using assms by (intro scrape_loop_ok) auto
  also have "\<dots> = (map row [0..<j], Some e)"
    using assms(1,3) by (subst scrape_loop_upt) (simp add: loop_limit_stop)
  finally show ?thesis .
qed

text \<open>An iteration returns a row when every sequence has the index and \<open>format_number\<close> returns.\<close>

lemma video_info_ok:
  assumes "i < length (titles p)" "i < length (slice_odd (uploads p))"
    "i < length (slice_even (counts p))" "i < length (video_ids p)"
    "i < length (video_links p)" "i < length (slice_even (terms p))"
    "format_number (hd (split_on (CHR '' '') (slice_even (counts p) ! i))) = Inr v"
  shows "video_info p i = Inr (split_on TAB
         (cname p @ [TAB] @ channel_ids p @ [TAB] @ titles p ! i @ [TAB]
          @ slice_odd (uploads p) ! i @ [TAB] @ v @ [TAB]
          @ last (split_on (CHR ''='') (video_ids p ! i)) @ [TAB]
          @ ''https://www.youtube.com'' @ video_links p ! i @ [TAB]
          @ strip_with is_space (slice_even (terms p) ! i)))"
  using assms by (simp add: video_info_def try_bind_def py_index_def)


lemma short_info_ok:
  assumes "i < length (titles p)" "i < length (counts p)" "i < length (video_ids p)"
    "i < length (video_links p)"
    "format_number (hd (split_on (CHR '' '') (counts p ! i))) = Inr v"
  shows "short_info p i = Inr (split_on TAB
         (cname p @ [TAB] @ channel_ids p @ [TAB] @ titles p ! i @ [TAB] @ v @ [TAB]
          @ last (split_on (CHR ''/'') (video_ids p ! i)) @ [TAB]
          @ ''https://www.youtube.com'' @ video_links p ! i))"
  using assms by (simp add: short_info_def try_bind_def py_index_def)

text \<open>
  With sequences of one length \<open>n\<close> and view counts that \<open>format_number\<close> accepts,
  the loop returns the rows of the first \<open>min n max_videos\<close> items in order.
\<close>

lemma scrape_loop_equal_lengths:
  assumes "length (titles p) = n" "length (slice_odd (uploads p)) = n"
    "length (slice_even (counts p)) = n" "length (video_ids p) = n"
    "length (video_links p) = n" "length (slice_even (terms p)) = n"
    "\<forall>i<n. \<exists>v. format_number (hd (split_on (CHR '' '') (slice_even (counts p) ! i))) = Inr v"
  shows "\<exists>rows. scrape_loop (video_info p) mx [0..<length (titles p)] [] = (rows, None)
           \<and> length rows = loop_limit n mx
           \<and> (\<forall>i<loop_limit n mx. video_info p i = Inr (rows ! i))"
proof -
  have le: "loop_limit n mx \<le> n"
    by (simp add: loop_limit_def split: option.splits)
  have ok: "\<forall>i<n. \<exists>row. video_info p i = Inr row"
    using assms video_info_ok [of _ p] by metis
  define row where "row i = projr (video_info p i)" for i
  have rows: "\<forall>i<loop_limit n mx. video_info p i = Inr (row i)"
  proof (intro allI impI)
    fix i assume "i < loop_limit n mx"
    with le have "i < n" by simp
    with ok obtain r where "video_info p i = Inr r" by blast
    then show "video_info p i = Inr (row i)" by (simp add: row_def)
  qed
  then have "scrape_loop (video_info p) mx [0..<n] [] = (map row [0..<loop_limit n mx], None)"
    by (rule scrape_loop_complete)
  with rows assms(1) show ?thesis by auto
qed

section \<open>Mismatched sequences and failing channels\<close>




text \<open>
  C3. The sequences of \<open>blank_count\<close> all have length 1, and the call returns no row:
  the view-count text is empty, \<open>format_number\<close> raises \<open>IndexError\<close> on it, and
  the exception is caught with nothing appended.
\<close>

theorem equal_lengths_blank_count:
  "length (titles blank_count) = 1 \<and> length (slice_odd (uploads blank_count)) = 1
   \<and> length (slice_even (counts blank_count)) = 1 \<and> length (video_ids blank_count) = 1
   \<and> length (video_links blank_count) = 1 \<and> length (slice_even (terms blank_count)) = 1
   \<and> streams_scrape_channel (Extracted blank_count) None ''20231206_101500''
     = Inr \<lparr>returned = [], written = [], caught = Some IndexError\<rparr>"
  by code_simp

text \<open>
  C5. The row assembled for \<open>tab_title\<close> has nine fields: the title holds a tab, and
  the row is the tab-joined string split at every tab.
\<close>

theorem tab_title_nine_fields:
  "video_info tab_title 0
     = Inr [''@eagle'', ''UC0123456789abcdefghijkl'', ''First'', ''flight'', ''2 days ago'',
            ''15,000'', ''abc'', ''https://www.youtube.com/watch?v=abc'', ''3:45'']
   \<and> length (projr (video_info tab_title 0)) = 9"
  by code_simp

text \<open>
  C6, as stated: a channel whose failure is caught adds nothing to \<open>data\<close>. It fails
  on \<open>spans_missing\<close>: the call catches \<open>IndexError\<close> and returns the row it had
  appended, and \<open>main\<close> extends \<open>data\<close> with it.
\<close>

theorem failed_channel_adds_rows:
  "streams_scrape_channel (Extracted spans_missing) None ''20231206_101500''
     = Inr \<lparr>returned = [[''@eagle'', ''UC0123456789abcdefghijkl'', ''First flight'',
                          ''2 days ago'', ''15,000'', ''abc'',
                          ''https://www.youtube.com/watch?v=abc'', ''3:45'']],
             written = [], caught = Some IndexError\<rparr>
   \<and> main_data read_back Streams None ''1'' []
         [(Extracted spans_missing, ''20231206_101500'')] []
     = Inr [[''@eagle'', ''UC0123456789abcdefghijkl'', ''First flight'', ''2 days ago'',
             ''15,000'', ''abc'', ''https://www.youtube.com/watch?v=abc'', ''3:45'']]"
  by code_simp

text \<open>
  C6, amended: a channel whose failure is caught before the loop adds no row to
  \<open>data\<close>; a channel whose loop raises at index \<open>j\<close> adds the \<open>j\<close> rows assembled
  before it.
\<close>

theorem failed_channel_adds_rows_before:
  assumes "j < loop_limit (length (titles p)) mx"
    and "\<forall>i<j. item_info sel p i = Inr (row i)"
    and "item_info sel p j = Inl e"
    and "sel = Videos \<longrightarrow> (\<exists>s. format_number (num_subscribers p) = Inr s)"
  shows "main_data read_csv sel mx choice_info dir ((ExtractFailed e0, stamp) # channels) data
           = main_data read_csv sel mx choice_info dir channels data
         \<and> main_data read_csv sel mx choice_info dir ((Extracted p, stamp) # channels) data
           = main_data read_csv sel mx choice_info dir channels (data @ map row [0..<j])"
proof -
  have loop: "scrape_loop (item_info sel p) mx [0..<length (titles p)] []
              = (map row [0..<j], Some e)"
    using assms(1-3) by (rule scrape_loop_raise)
  have first: "main_data read_csv sel mx choice_info dir ((ExtractFailed e0, stamp) # channels) data
               = main_data read_csv sel mx choice_info dir channels data"
    by (cases sel)
       (simp_all add: videos_scrape_channel_def streams_scrape_channel_def
          shorts_scrape_channel_def)
  have second: "main_data read_csv sel mx choice_info dir ((Extracted p, stamp) # channels) data
                = main_data read_csv sel mx choice_info dir channels (data @ map row [0..<j])"
  proof (cases sel)
    case Videos
    with assms(4) obtain s where "format_number (num_subscribers p) = Inr s" by blast
    with Videos loop show ?thesis
      by (simp add: videos_scrape_channel_def item_info_def)
  next
    case Streams
    with loop show ?thesis
      by (simp add: streams_scrape_channel_def item_info_def)
  next
    case Shorts
    with loop show ?thesis
      by (simp add: shorts_scrape_channel_def item_info_def)
  qed
  from first second show ?thesis by simp
qed

theorem failed_channel_adds_rows_before_witness:
  "main_data read_back Streams None ''1'' []
     [(ExtractFailed ExternalError, ''20231206_101500''),
      (Extracted spans_missing, ''20231206_101500'')] []
   = Inr [[''@eagle'', ''UC0123456789abcdefghijkl'', ''First flight'', ''2 days ago'',
           ''15,000'', ''abc'', ''https://www.youtube.com/watch?v=abc'', ''3:45'']]"
proof -
  define r where "r = [''@eagle'', ''UC0123456789abcdefghijkl'', ''First flight'',
    ''2 days ago'', ''15,000'', ''abc'', ''https://www.youtube.com/watch?v=abc'', ''3:45'']"
  have 1: "(1::nat) < loop_limit (length (titles spans_missing)) None"
    by code_simp
  have "item_info Streams spans_missing 0 = Inr r"
    unfolding r_def by code_simp
  then have 2: "\<forall>i<1. item_info Streams spans_missing i = Inr ((\<lambda>_. r) i)"
    by simp
  have 3: "item_info Streams spans_missing 1 = Inl IndexError"
    by code_simp
  have 4: "Streams = Videos \<longrightarrow> (\<exists>s. format_number (num_subscribers spans_missing) = Inr s)"
    by simp
  have "main_data read_back Streams None ''1'' []
          [(ExtractFailed ExternalError, ''20231206_101500''),
           (Extracted spans_missing, ''20231206_101500'')] []
        = main_data read_back Streams None ''1'' [] [] ([] @ map (\<lambda>_. r) [0..<1])"
    using failed_channel_adds_rows_before [OF 1 2 3 4, of read_back "''1''" "[]"]
    by simp
  then show ?thesis by (simp add: r_def)
qed

section \<open>Where the files are written\<close>

lemma write_files_paths:
  assumes "name \<noteq> []" "hd name \<noteq> CHR ''/''" "last name \<noteq> CHR ''/''"
  shows "map fst (fst (write_files kind name stamp header cols data))
           = [''downloads/'' @ name @ ''/'' @ name @ ''_'' @ kind @ ''_'' @ stamp @ ''.txt'']
         \<or> map fst (fst (write_files kind name stamp header cols data))
           = map (\<lambda>ext. ''downloads/'' @ name @ ''/'' @ name @ ''_'' @ kind @ ''_'' @ stamp @ ext)
               [''.txt'', ''.csv'', ''.xlsx'', ''.json'']"
  using assms
  by (cases name) (auto simp: write_files_def os_path_join_def Let_def split: sum.splits)

lemma write_files_stamp:
  assumes "fst (hd (fst (write_files kind name stamp header cols data)))
           = fst (hd (fst (write_files kind name stamp' header cols data)))"
  shows "stamp = stamp'"
  using assms
  by (auto simp: write_files_def os_path_join_def Let_def split: sum.splits if_splits)

lemma write_shorts_paths:
  "map fst (fst (write_shorts read_csv name data)) = [name @ ''_shorts.txt'']
   \<or> map fst (fst (write_shorts read_csv name data))
     = [name @ ''_shorts.txt'', name @ ''_shorts.csv'', name @ ''_shorts.xlsx'',
        name @ ''_shorts.json'']"
  by (auto simp: write_shorts_def Let_def split: sum.splits)

text \<open>
  C7. For shorts the files are \<open><channel_name>_shorts.<ext>\<close> in the working
  directory: no \<open>downloads/<channel_name>\<close> directory and no time stamp, which
  \<open>eagle_eye_shorts.scrape_channel\<close> never computes. A second run over the channel
  writes to the same paths.
\<close>

theorem shorts_paths_no_stamp:
  "map fst (written (projr (shorts_scrape_channel read_csv (Extracted one_short) None)))
     = [''@eagle_shorts.txt'']
   \<or> map fst (written (projr (shorts_scrape_channel read_csv (Extracted one_short) None)))
     = [''@eagle_shorts.txt'', ''@eagle_shorts.csv'', ''@eagle_shorts.xlsx'',
        ''@eagle_shorts.json'']"
proof -
  have loop: "scrape_loop (short_info one_short) None [0..<length (titles one_short)] []
              = ([[''@eagle'', ''UC0123456789abcdefghijkl'', ''Dive'', ''2,000,000'', ''xyz'',
                   ''https://www.youtube.com/shorts/xyz'']], None)"
    by code_simp
  have name: "cname one_short = ''@eagle''"
    by code_simp
  have "written (projr (shorts_scrape_channel read_csv (Extracted one_short) None))
        = fst (write_shorts read_csv ''@eagle''
                 [[''@eagle'', ''UC0123456789abcdefghijkl'', ''Dive'', ''2,000,000'', ''xyz'',
                   ''https://www.youtube.com/shorts/xyz'']])"
    by (simp add: shorts_scrape_channel_def loop name split_beta)
  then show ?thesis
    using write_shorts_paths [of read_csv "''@eagle''"] by simp
qed

section \<open>Names of the summary files\<close>

lemma endswith_iff: "endswith s suffix = (\<exists>p. s = p @ suffix)"
proof
  assume "endswith s suffix"
  then have "s = take (length s - length suffix) s @ suffix"
    by (simp add: endswith_def) (metis append_take_drop_id)
  then show "\<exists>p. s = p @ suffix" by blast
next
  assume "\<exists>p. s = p @ suffix"
  then show "endswith s suffix" by (auto simp: endswith_def)
qed

lemma digits_of_int_not_Nil: "digits_of_int n \<noteq> []"
  by (subst digits_of_int.simps) simp

lemma is_digit_char_of: "0 \<le> k \<Longrightarrow> k < 10 \<Longrightarrow> is_digit (char_of (48 + k :: int))"
  by (simp add: is_digit_def)

text \<open>A field printed on two digits ends with a zero and a character, or with a digit.\<close>

lemma pad2_tail: "\<exists>u a b. pad2 n = u @ [a, b] \<and> (a = CHR ''0'' \<or> is_digit b)"
proof (cases "n < 10")
  case True
  then have "digits_of_int n = [char_of (48 + n)]"
    by (subst digits_of_int.simps) simp
  with True have "pad2 n = [] @ [CHR ''0'', char_of (48 + n)]"
    by (simp add: pad2_def)
  then show ?thesis by blast
next
  case False
  then have d: "digits_of_int n = digits_of_int (n div 10) @ [char_of (48 + n mod 10)]"
    by (subst digits_of_int.simps) simp
  obtain u a where u: "digits_of_int (n div 10) = u @ [a]"
    using digits_of_int_not_Nil [of "n div 10"] by (metis rev_exhaust)
  have "is_digit (char_of (48 + n mod 10))"
    by (rule is_digit_char_of) simp_all
  with False d u have "pad2 n = u @ [a, char_of (48 + n mod 10)]
                       \<and> is_digit (char_of (48 + n mod 10))"
    by (simp add: pad2_def)
  then show ?thesis by blast
qed

lemma stamped_csv_not_summary:
  "\<not> endswith (pre @ strftime d @ ''.csv'') ''_summary.csv''"
proof
  assume "endswith (pre @ strftime d @ ''.csv'') ''_summary.csv''"
  then obtain q where q: "pre @ strftime d @ ''.csv'' = q @ ''_summary.csv''"
    by (auto simp: endswith_iff)
  obtain u a b where t: "pad2 (second d) = u @ [a, b]" "a = CHR ''0'' \<or> is_digit b"
    using pad2_tail by blast
  define front where "front = pre @ digits_of_int (year d) @ pad2 (month d) @ pad2 (day d)
                              @ ''_'' @ pad2 (hour d) @ pad2 (minute d) @ u"
  have "pre @ strftime d @ ''.csv'' = (front @ [a, b]) @ ''.csv''"
    by (simp add: strftime_def t front_def)
  moreover have "q @ ''_summary.csv'' = ((q @ ''_summa'') @ [CHR ''r'', CHR ''y'']) @ ''.csv''"
    by simp
  ultimately have "front @ [a, b] = (q @ ''_summa'') @ [CHR ''r'', CHR ''y'']"
    using q by (metis append_same_eq)
  then have "a = CHR ''r'' \<and> b = CHR ''y''"
    by simp
  with t(2) show False
    by (simp add: is_digit_def)
qed

lemma other_ext_not_summary:
  "x \<noteq> Ext_csv \<Longrightarrow> \<not> endswith (pre @ dot_ext x) ''_summary.csv''"
proof
  assume x: "x \<noteq> Ext_csv" and "endswith (pre @ dot_ext x) ''_summary.csv''"
  then obtain q where "pre @ dot_ext x = q @ ''_summary.csv''"
    by (auto simp: endswith_iff)
  then have "last (pre @ dot_ext x) = last (q @ ''_summary.csv'')"
    by simp
  with x show False
    by (cases x) (simp_all add: dot_ext_def)
qed

lemma summary_file_name_not_selected:
  "\<not> endswith (pre @ summary_file_name name d x) ''_summary.csv''"
proof (cases "x = Ext_csv")
  case True
  then show ?thesis
    using stamped_csv_not_summary [of "pre @ name @ ''_summary_''" d]
    by (simp add: summary_file_name_def dot_ext_def)
next
  case False
  then show ?thesis
    using other_ext_not_summary [of x "pre @ name @ ''_summary_'' @ strftime d"]
    by (simp add: summary_file_name_def)
qed

lemma os_path_join_suffix: "\<exists>pre. os_path_join a b = pre @ b"
  by (simp add: os_path_join_def)

text \<open>The files of the channel summary carry these names, in the channel's directory.\<close>

lemma write_files_summary_names:
  "list_all (\<lambda>path. \<exists>x. path = os_path_join (os_path_join ''downloads'' name)
                                    (summary_file_name name d x))
     (map fst (fst (write_files ''summary'' name (strftime d) header cols data)))"
proof -
  have "\<exists>x. os_path_join a (name @ ''_summary_'' @ strftime d @ ''.txt'')
             = os_path_join a (summary_file_name name d x)" for a
    by (rule exI [of _ Ext_txt]) (simp add: summary_file_name_def dot_ext_def)
  moreover have "\<exists>x. os_path_join a (name @ ''_summary_'' @ strftime d @ ''.csv'')
             = os_path_join a (summary_file_name name d x)" for a
    by (rule exI [of _ Ext_csv]) (simp add: summary_file_name_def dot_ext_def)
  moreover have "\<exists>x. os_path_join a (name @ ''_summary_'' @ strftime d @ ''.xlsx'')
             = os_path_join a (summary_file_name name d x)" for a
    by (rule exI [of _ Ext_xlsx]) (simp add: summary_file_name_def dot_ext_def)
  moreover have "\<exists>x. os_path_join a (name @ ''_summary_'' @ strftime d @ ''.json'')
             = os_path_join a (summary_file_name name d x)" for a
    by (rule exI [of _ Ext_json]) (simp add: summary_file_name_def dot_ext_def)
  ultimately show ?thesis
    by (simp add: write_files_def Let_def split: sum.splits)
qed

lemma merge_summary_files_none:
  "filter (\<lambda>file. endswith file ''_summary.csv'') (map fst dir) = [] \<Longrightarrow>
   merge_summary_files read_csv dir = Inr (dir, [''No summary files found for merging.''])"
  by (simp add: merge_summary_files_def)

text \<open>
  C10. The CSV file of the channel summary, \<open><cname>_summary_<stamp>.csv\<close>, does not
  end with \<open>_summary.csv\<close>, whatever the channel name and the time, and neither does any
  path that the summary export writes; over a directory that holds only files with these
  names, \<open>merge_summary_files\<close> selects nothing, writes nothing and prints that no
  summary file was found.
\<close>

theorem summary_files_never_merged:
  "\<not> endswith (summary_file_name name d Ext_csv) ''_summary.csv''
   \<and> list_all (\<lambda>path. \<not> endswith path ''_summary.csv'')
       (map fst (fst (write_files ''summary'' name (strftime d) header cols data)))
   \<and> merge_summary_files read_csv
       (map (\<lambda>item. (summary_file_name (fst item) (fst (snd item)) (fst (snd (snd item))),
                     snd (snd (snd item)))) items)
     = Inr (map (\<lambda>item. (summary_file_name (fst item) (fst (snd item)) (fst (snd (snd item))),
                          snd (snd (snd item)))) items,
            [''No summary files found for merging.''])"
proof -
  have 1: "\<not> endswith (summary_file_name name d Ext_csv) ''_summary.csv''"
    using summary_file_name_not_selected [of "[]"] by simp
  have "\<not> endswith (os_path_join a (summary_file_name name d x)) ''_summary.csv''" for a x
    using os_path_join_suffix [of a "summary_file_name name d x"]
      summary_file_name_not_selected by metis
  then have 2: "list_all (\<lambda>path. \<not> endswith path ''_summary.csv'')
       (map fst (fst (write_files ''summary'' name (strftime d) header cols data)))"
    using write_files_summary_names [of name d header cols data]
    by (auto simp: list_all_iff)
  have "filter (\<lambda>file. endswith file ''_summary.csv'')
          (map fst (map (\<lambda>item. (summary_file_name (fst item) (fst (snd item))
                                     (fst (snd (snd item))), snd (snd (snd item)))) items)) = []"
    using summary_file_name_not_selected [of "[]"] by (simp add: filter_empty_conv)
  then have 3: "merge_summary_files read_csv
       (map (\<lambda>item. (summary_file_name (fst item) (fst (snd item)) (fst (snd (snd item))),
                     snd (snd (snd item)))) items)
     = Inr (map (\<lambda>item. (summary_file_name (fst item) (fst (snd item)) (fst (snd (snd item))),
                          snd (snd (snd item)))) items,
            [''No summary files found for merging.''])"
    by (rule merge_summary_files_none)
  from 1 2 3 show ?thesis by blast
qed

section \<open>Properties of merge\_summary\_files\<close>

lemma realign_same:
  assumes "distinct cs" "length r = length cs"
  shows "realign cs cs r = r"
proof (rule nth_equalityI)
  show "length (realign cs cs r) = length r"
    using assms by (simp add: realign_def)
next
  fix i assume "i < length (realign cs cs r)"
  then have i: "i < length cs" by (simp add: realign_def)
  with assms have "map_of (zip cs r) (cs ! i) = Some (r ! i)"
    by (simp add: map_of_zip_nth)
  with i show "realign cs cs r ! i = r ! i"
    by (simp add: realign_def)
qed

lemma remdups_append_subset: "set xs \<subseteq> set ys \<Longrightarrow> remdups (xs @ ys) = remdups ys"
  by (induction xs) auto

lemma concat_df_same_columns:
  assumes "distinct cs" "length r1 = length cs" "length r2 = length cs" "length r3 = length cs"
  shows "concat_df [(cs, [r1]), (cs, [r2]), (cs, [r3])] = (cs, [r1, r2, r3])"
proof -
  have "remdups (rev cs @ rev cs @ rev cs) = rev cs"
    using assms(1) by (simp add: remdups_append_subset distinct_remdups_id)
  then have "rev (remdups (rev (concat (map fst [(cs, [r1]), (cs, [r2]), (cs, [r3])])))) = cs"
    by simp
  then show ?thesis
    using assms by (simp add: concat_df_def realign_same)
qed

lemma filter_keys_update:
  "\<not> P k \<Longrightarrow> filter P (map fst (AList.update k v al)) = filter P (map fst al)"
  by (simp add: update_keys)

lemma read_all_cong:
  "(\<And>f. f \<in> set files \<Longrightarrow> map_of d1 f = map_of d2 f) \<Longrightarrow>
   read_all read_csv d1 files = read_all read_csv d2 files"
  by (induction files) (simp_all split: option.splits)

lemma aggregate_names_not_selected:
  "\<not> endswith ''summary_all_channels.csv'' ''_summary.csv''"
  "\<not> endswith ''summary_all_channels.txt'' ''_summary.csv''"
  "\<not> endswith ''summary_all_channels.xlsx'' ''_summary.csv''"
  "\<not> endswith ''summary_all_channels.json'' ''_summary.csv''"
  by (simp_all add: endswith_def)

lemma merge_summary_files_three:
  assumes "filter (\<lambda>file. endswith file ''_summary.csv'') (map fst dir) = [f1, f2, f3]"
    and "map_of dir f1 = Some c1" "map_of dir f2 = Some c2" "map_of dir f3 = Some c3"
    and "read_csv (CHR '','') c1 = Inr (cs1, [r1])"
    and "read_csv (CHR '','') c2 = Inr (cs2, [r2])"
    and "read_csv (CHR '','') c3 = Inr (cs3, [r3])"
  shows "merge_summary_files read_csv dir
         = Inr (AList.update ''summary_all_channels.json''
                  (Json (concat_df [(cs1, [r1]), (cs2, [r2]), (cs3, [r3])]))
               (AList.update ''summary_all_channels.xlsx''
                  (Xlsx (concat_df [(cs1, [r1]), (cs2, [r2]), (cs3, [r3])]))
               (AList.update ''summary_all_channels.txt''
                  (Tsv (concat_df [(cs1, [r1]), (cs2, [r2]), (cs3, [r3])]))
               (AList.update ''summary_all_channels.csv''
                  (Csv (concat_df [(cs1, [r1]), (cs2, [r2]), (cs3, [r3])])) dir))),
                [[CHR 0x1B] @ ''[92mSummary files merged successfully.'' @ [CHR 0x1B] @ ''[0m''])"
  using assms by (simp add: merge_summary_files_def try_bind_def Let_def)

lemma concat_df_three_rows:
  "snd (concat_df [(cs1, [r1]), (cs2, [r2]), (cs3, [r3])])
   = [realign (fst (concat_df [(cs1, [r1]), (cs2, [r2]), (cs3, [r3])])) cs1 r1,
      realign (fst (concat_df [(cs1, [r1]), (cs2, [r2]), (cs3, [r3])])) cs2 r2,
      realign (fst (concat_df [(cs1, [r1]), (cs2, [r2]), (cs3, [r3])])) cs3 r3]"
  by (simp add: concat_df_def Let_def)

lemma merge_summary_files_again:
  assumes "merge_summary_files read_csv dir = Inr (dir', out)"
  shows "merge_summary_files read_csv dir' = Inr (dir', out)"
proof (cases "filter (\<lambda>file. endswith file ''_summary.csv'') (map fst dir) = []")
  case True
  with assms have "dir' = dir"
    by (simp add: merge_summary_files_def)
  with assms show ?thesis by simp
next
  case False
  define files where "files = filter (\<lambda>file. endswith file ''_summary.csv'') (map fst dir)"
  from False assms obtain dfs where dfs: "read_all read_csv dir files = Inr dfs"
    by (auto simp: merge_summary_files_def try_bind_def files_def split: sum.splits)
  define m where "m = concat_df dfs"
  have dir': "dir' = AList.update ''summary_all_channels.json'' (Json m)
                      (AList.update ''summary_all_channels.xlsx'' (Xlsx m)
                      (AList.update ''summary_all_channels.txt'' (Tsv m)
                      (AList.update ''summary_all_channels.csv'' (Csv m) dir)))"
    and out: "out = [[CHR 0x1B] @ ''[92mSummary files merged successfully.'' @ [CHR 0x1B] @ ''[0m'']"
    using False assms dfs
    by (simp_all add: merge_summary_files_def try_bind_def files_def m_def Let_def)
  have files': "filter (\<lambda>file. endswith file ''_summary.csv'') (map fst dir') = files"
    by (simp add: dir' files_def filter_keys_update aggregate_names_not_selected)
  have "map_of dir' f = map_of dir f" if "f \<in> set files" for f
  proof -
    from that have "endswith f ''_summary.csv''" by (simp add: files_def)
    then have "f \<noteq> ''summary_all_channels.csv''" "f \<noteq> ''summary_all_channels.txt''"
      "f \<noteq> ''summary_all_channels.xlsx''" "f \<noteq> ''summary_all_channels.json''"
      using aggregate_names_not_selected by auto
    then show ?thesis by (simp add: dir' update_conv')
  qed
  then have read': "read_all read_csv dir' files = Inr dfs"
    using dfs read_all_cong [of files dir' dir read_csv] by simp
  have "map_of dir' ''summary_all_channels.csv'' = Some (Csv m)"
    "map_of dir' ''summary_all_channels.txt'' = Some (Tsv m)"
    "map_of dir' ''summary_all_channels.xlsx'' = Some (Xlsx m)"
    "map_of dir' ''summary_all_channels.json'' = Some (Json m)"
    by (simp_all add: dir' update_conv')
  then have same: "AList.update ''summary_all_channels.json'' (Json m)
                     (AList.update ''summary_all_channels.xlsx'' (Xlsx m)
                     (AList.update ''summary_all_channels.txt'' (Tsv m)
                     (AList.update ''summary_all_channels.csv'' (Csv m) dir'))) = dir'"
    by (simp add: update_triv)
  from False files' have "filter (\<lambda>file. endswith file ''_summary.csv'') (map fst dir') \<noteq> []"
    by (simp add: files_def)
  then show ?thesis
    using files' read' same out
    by (simp add: merge_summary_files_def try_bind_def m_def Let_def)
qed

text \<open>
  C9. Over a directory with exactly three files whose names end with
  \<open>_summary.csv\<close>, each read as a table of one row, \<open>merge_summary_files\<close> writes
  the four aggregate files from one table of three rows, the rows of the files in the
  order of the listing; over a directory with no such file it writes nothing and prints
  that no summary file was found; called again on the directory it left, it leaves the
  same directory: the aggregates are replaced, not extended.
\<close>

theorem merge_summary_files_contract:
  "(filter (\<lambda>file. endswith file ''_summary.csv'') (map fst d3) = [f1, f2, f3]
    \<and> map_of d3 f1 = Some c1 \<and> map_of d3 f2 = Some c2 \<and> map_of d3 f3 = Some c3
    \<and> read_csv (CHR '','') c1 = Inr (cs1, [r1]) \<and> read_csv (CHR '','') c2 = Inr (cs2, [r2])
    \<and> read_csv (CHR '','') c3 = Inr (cs3, [r3])
    \<longrightarrow> merge_summary_files read_csv d3
         = Inr (AList.update ''summary_all_channels.json''
                  (Json (concat_df [(cs1, [r1]), (cs2, [r2]), (cs3, [r3])]))
               (AList.update ''summary_all_channels.xlsx''
                  (Xlsx (concat_df [(cs1, [r1]), (cs2, [r2]), (cs3, [r3])]))
               (AList.update ''summary_all_channels.txt''
                  (Tsv (concat_df [(cs1, [r1]), (cs2, [r2]), (cs3, [r3])]))
               (AList.update ''summary_all_channels.csv''
                  (Csv (concat_df [(cs1, [r1]), (cs2, [r2]), (cs3, [r3])])) d3))),
                [[CHR 0x1B] @ ''[92mSummary files merged successfully.'' @ [CHR 0x1B] @ ''[0m''])
      \<and> snd (concat_df [(cs1, [r1]), (cs2, [r2]), (cs3, [r3])])
        = [realign (fst (concat_df [(cs1, [r1]), (cs2, [r2]), (cs3, [r3])])) cs1 r1,
           realign (fst (concat_df [(cs1, [r1]), (cs2, [r2]), (cs3, [r3])])) cs2 r2,
           realign (fst (concat_df [(cs1, [r1]), (cs2, [r2]), (cs3, [r3])])) cs3 r3]
      \<and> (cs1 = cs2 \<and> cs2 = cs3 \<and> distinct cs1 \<and> length r1 = length cs1
          \<and> length r2 = length cs1 \<and> length r3 = length cs1
          \<longrightarrow> concat_df [(cs1, [r1]), (cs2, [r2]), (cs3, [r3])] = (cs1, [r1, r2, r3])))
   \<and> (filter (\<lambda>file. endswith file ''_summary.csv'') (map fst d0) = []
      \<longrightarrow> merge_summary_files read_csv d0
          = Inr (d0, [''No summary files found for merging.'']))
   \<and> (merge_summary_files read_csv dir = Inr (dir', out)
      \<longrightarrow> merge_summary_files read_csv dir' = Inr (dir', out))"
  using merge_summary_files_three [of d3 f1 f2 f3 c1 c2 c3 read_csv cs1 r1 cs2 r2 cs3 r3]
    concat_df_three_rows [of cs1 r1 cs2 r2 cs3 r3]
    concat_df_same_columns [of cs1 r1 r2 r3]
    merge_summary_files_none [of d0 read_csv]
    merge_summary_files_again [of read_csv dir dir' out]
  by blast

theorem merge_summary_files_contract_witness:
  "merge_summary_files read_back three_summaries
     = Inr (AList.update ''summary_all_channels.json''
              (Json (summary_columns, [summary_row ''@a'', summary_row ''@b'', summary_row ''@c'']))
           (AList.update ''summary_all_channels.xlsx''
              (Xlsx (summary_columns, [summary_row ''@a'', summary_row ''@b'', summary_row ''@c'']))
           (AList.update ''summary_all_channels.txt''
              (Tsv (summary_columns, [summary_row ''@a'', summary_row ''@b'', summary_row ''@c'']))
           (AList.update ''summary_all_channels.csv''
              (Csv (summary_columns, [summary_row ''@a'', summary_row ''@b'', summary_row ''@c'']))
              three_summaries))),
            [[CHR 0x1B] @ ''[92mSummary files merged successfully.'' @ [CHR 0x1B] @ ''[0m''])
   \<and> merge_summary_files read_back [(''notes.txt'', Text ''not a summary'')]
     = Inr ([(''notes.txt'', Text ''not a summary'')], [''No summary files found for merging.''])
   \<and> merge_summary_files read_back
       (AList.update ''summary_all_channels.json''
              (Json (summary_columns, [summary_row ''@a'', summary_row ''@b'', summary_row ''@c'']))
           (AList.update ''summary_all_channels.xlsx''
              (Xlsx (summary_columns, [summary_row ''@a'', summary_row ''@b'', summary_row ''@c'']))
           (AList.update ''summary_all_channels.txt''
              (Tsv (summary_columns, [summary_row ''@a'', summary_row ''@b'', summary_row ''@c'']))
           (AList.update ''summary_all_channels.csv''
              (Csv (summary_columns, [summary_row ''@a'', summary_row ''@b'', summary_row ''@c'']))
              three_summaries))))
     = Inr (AList.update ''summary_all_channels.json''
              (Json (summary_columns, [summary_row ''@a'', summary_row ''@b'', summary_row ''@c'']))
           (AList.update ''summary_all_channels.xlsx''
              (Xlsx (summary_columns, [summary_row ''@a'', summary_row ''@b'', summary_row ''@c'']))
           (AList.update ''summary_all_channels.txt''
              (Tsv (summary_columns, [summary_row ''@a'', summary_row ''@b'', summary_row ''@c'']))
           (AList.update ''summary_all_channels.csv''
              (Csv (summary_columns, [summary_row ''@a'', summary_row ''@b'', summary_row ''@c'']))
              three_summaries))),
            [[CHR 0x1B] @ ''[92mSummary files merged successfully.'' @ [CHR 0x1B] @ ''[0m''])"
proof -
  define m where
    "m = (summary_columns, [summary_row ''@a'', summary_row ''@b'', summary_row ''@c''])"
  define merged where
    "merged = AList.update ''summary_all_channels.json'' (Json m)
               (AList.update ''summary_all_channels.xlsx'' (Xlsx m)
               (AList.update ''summary_all_channels.txt'' (Tsv m)
               (AList.update ''summary_all_channels.csv'' (Csv m) three_summaries)))"
  define msg where
    "msg = [[CHR 0x1B] @ ''[92mSummary files merged successfully.'' @ [CHR 0x1B] @ ''[0m'']"
  have files: "filter (\<lambda>file. endswith file ''_summary.csv'') (map fst three_summaries)
               = [''@a_summary.csv'', ''@b_summary.csv'', ''@c_summary.csv'']"
    by code_simp
  have found: "map_of three_summaries ''@a_summary.csv''
                 = Some (Csv (summary_columns, [summary_row ''@a'']))"
    "map_of three_summaries ''@b_summary.csv'' = Some (Csv (summary_columns, [summary_row ''@b'']))"
    "map_of three_summaries ''@c_summary.csv'' = Some (Csv (summary_columns, [summary_row ''@c'']))"
    by code_simp+
  have reads: "read_back (CHR '','') (Csv (summary_columns, [summary_row name]))
               = Inr (summary_columns, [summary_row name])" for name
    by (simp add: read_back_def)
  have shape: "distinct summary_columns" "length (summary_row name) = length summary_columns"
    for name
    by (simp_all add: summary_columns_def summary_row_def)
  have none: "filter (\<lambda>file. endswith file ''_summary.csv'')
                (map fst [(''notes.txt'', Text ''not a summary'')]) = []"
    by code_simp
  note contract = merge_summary_files_contract
    [where ?d3.0 = three_summaries and ?f1.0 = "''@a_summary.csv''"
       and ?f2.0 = "''@b_summary.csv''" and ?f3.0 = "''@c_summary.csv''"
       and ?c1.0 = "Csv (summary_columns, [summary_row ''@a''])"
       and ?c2.0 = "Csv (summary_columns, [summary_row ''@b''])"
       and ?c3.0 = "Csv (summary_columns, [summary_row ''@c''])"
       and read_csv = read_back
       and ?cs1.0 = summary_columns and ?cs2.0 = summary_columns and ?cs3.0 = summary_columns
       and ?r1.0 = "summary_row ''@a''" and ?r2.0 = "summary_row ''@b''"
       and ?r3.0 = "summary_row ''@c''"
       and ?d0.0 = "[(''notes.txt'', Text ''not a summary'')]"
       and dir = three_summaries and dir' = merged and out = msg]
  have table: "concat_df [(summary_columns, [summary_row ''@a'']),
                          (summary_columns, [summary_row ''@b'']),
                          (summary_columns, [summary_row ''@c''])] = m"
    using contract files found reads shape unfolding m_def by blast
  have first: "merge_summary_files read_back three_summaries = Inr (merged, msg)"
    using contract files found reads unfolding merged_def msg_def table [symmetric] by blast
  have second: "merge_summary_files read_back [(''notes.txt'', Text ''not a summary'')]
     = Inr ([(''notes.txt'', Text ''not a summary'')], [''No summary files found for merging.''])"
    using contract none by blast
  have third: "merge_summary_files read_back merged = Inr (merged, msg)"
    using contract first by blast
  from first second third show ?thesis
    unfolding merged_def msg_def m_def by blast
qed

section \<open>The tables behind the CSV and JSON files\<close>

lemma foldr_max_const:
  "data \<noteq> [] \<Longrightarrow> list_all (\<lambda>r. length r = n) data \<Longrightarrow> foldr max (map length data) 0 = n"
proof (induction data)
  case Nil
  then show ?case by simp
next
  case (Cons r data)
  then show ?case by (cases "data = []") simp_all
qed

lemma DataFrame_rows:
  assumes "list_all (\<lambda>r. length r = length cols) data"
  shows "DataFrame data cols = Inr (cols, map (map Some) data)"
proof (cases "data = []")
  case True
  then show ?thesis by (simp add: DataFrame_def)
next
  case False
  then have w: "foldr max (map length data) 0 = length cols"
    using assms by (rule foldr_max_const)
  have "map (\<lambda>r. map Some r @ replicate (length cols - length r) None) data
        = map (map Some) data"
    using assms by (induction data) simp_all
  with False w show ?thesis by (simp add: DataFrame_def)
qed

text \<open>
  For videos, streams and the channel summary the CSV, XLSX and JSON files are written
  from one table: the records in order, under the column names.
\<close>

lemma write_files_same_table:
  assumes "list_all (\<lambda>r. length r = length cols) data"
  shows "map snd (fst (write_files kind name stamp header cols data))
         = [Text (join_with TAB header @ [NL] @ txt_lines data),
            Csv (cols, map (map Some) data), Xlsx (cols, map (map Some) data),
            Json (cols, map (map Some) data)]"
  using DataFrame_rows [OF assms] by (simp add: write_files_def Let_def)

text \<open>
  C8. For shorts the CSV and the JSON are not written from the records but from the
  table that \<open>read_csv\<close> reads back from the TXT file. For \<open>newline_short\<close> the
  call returns one record and the TXT file holds two lines after the header, the first
  with three fields and the second with four.
\<close>

theorem newline_short_two_lines:
  "returned (projr (shorts_scrape_channel read_csv (Extracted newline_short) None))
     = [[''@eagle'', ''UC0123456789abcdefghijkl'', ''Dive'' @ [NL] @ ''again'', ''2,000,000'',
         ''xyz'', ''https://www.youtube.com/shorts/xyz'']]
   \<and> map (split_on TAB) (split_on NL
         (case snd (hd (written (projr (shorts_scrape_channel read_csv
                                          (Extracted newline_short) None)))) of
            Text t \<Rightarrow> t | _ \<Rightarrow> []))
     = [[''Channel'', ''Identifier'', ''Title'', ''Video_views'', ''Video_id'', ''Link''],
        [''@eagle'', ''UC0123456789abcdefghijkl'', ''Dive''],
        [''again'', ''2,000,000'', ''xyz'', ''https://www.youtube.com/shorts/xyz''],
        ['''']]"
proof -
  have loop: "scrape_loop (short_info newline_short) None
                [0..<length (titles newline_short)] []
              = ([[''@eagle'', ''UC0123456789abcdefghijkl'', ''Dive'' @ [NL] @ ''again'',
                   ''2,000,000'', ''xyz'', ''https://www.youtube.com/shorts/xyz'']], None)"
    by code_simp
  have name: "cname newline_short = ''@eagle''"
    by code_simp
  have lines: "map (split_on TAB) (split_on NL
               (join_with TAB short_columns @ [NL]
                @ txt_lines [[''@eagle'', ''UC0123456789abcdefghijkl'', ''Dive'' @ [NL] @ ''again'',
                              ''2,000,000'', ''xyz'', ''https://www.youtube.com/shorts/xyz'']]))
     = [[''Channel'', ''Identifier'', ''Title'', ''Video_views'', ''Video_id'', ''Link''],
        [''@eagle'', ''UC0123456789abcdefghijkl'', ''Dive''],
        [''again'', ''2,000,000'', ''xyz'', ''https://www.youtube.com/shorts/xyz''],
        ['''']]"
    by code_simp
  have "shorts_scrape_channel read_csv (Extracted newline_short) None
        = Inr \<lparr>returned = [[''@eagle'', ''UC0123456789abcdefghijkl'', ''Dive'' @ [NL] @ ''again'',
                             ''2,000,000'', ''xyz'', ''https://www.youtube.com/shorts/xyz'']],
                written = fst (write_shorts read_csv ''@eagle''
                   [[''@eagle'', ''UC0123456789abcdefghijkl'', ''Dive'' @ [NL] @ ''again'',
                     ''2,000,000'', ''xyz'', ''https://www.youtube.com/shorts/xyz'']]),
                caught = snd (write_shorts read_csv ''@eagle''
                   [[''@eagle'', ''UC0123456789abcdefghijkl'', ''Dive'' @ [NL] @ ''again'',
                     ''2,000,000'', ''xyz'', ''https://www.youtube.com/shorts/xyz'']])\<rparr>"
    by (simp add: shorts_scrape_channel_def loop name split_beta)
  moreover have "snd (hd (fst (write_shorts read_csv ''@eagle'' data)))
                 = Text (join_with TAB short_columns @ [NL] @ txt_lines data)" for data
    by (simp add: write_shorts_def Let_def split: sum.splits)
  ultimately show ?thesis
    using lines by simp
qed

section \<open>Number of fields of a row\<close>

lemma filter_sep_absent: "c \<notin> set s \<Longrightarrow> filter (\<lambda>x. x = c) s = []"
  by (induction s) auto

text \<open>Eight pieces without a tab give a row of eight fields; every tab in a piece adds one.\<close>

lemma eight_fields:
  assumes "TAB \<notin> set a" "TAB \<notin> set b" "TAB \<notin> set c" "TAB \<notin> set d"
    "TAB \<notin> set e" "TAB \<notin> set f" "TAB \<notin> set g" "TAB \<notin> set h"
  shows "length (split_on TAB (a @ [TAB] @ b @ [TAB] @ c @ [TAB] @ d @ [TAB] @ e @ [TAB]
                               @ f @ [TAB] @ g @ [TAB] @ h)) = 8"
  using assms by (simp add: length_split_on filter_sep_absent)

lemma at_least_eight_fields:
  "8 \<le> length (split_on TAB (a @ [TAB] @ b @ [TAB] @ c @ [TAB] @ d @ [TAB] @ e @ [TAB]
                              @ f @ [TAB] @ g @ [TAB] @ h))"
  by (simp add: length_split_on)

lemma video_info_at_least_eight: "video_info p i = Inr row \<Longrightarrow> 8 \<le> length row"
  by (auto simp: video_info_def try_bind_def length_split_on split: sum.splits)

end
